theory Spec2Isabelle
  imports Main "HOL-Library.AList" "HOL-Library.Sublist"
begin

section \<open>Path strings\<close>

text \<open>
  The functions of \<^verbatim>\<open>os.path\<close> (POSIX flavour) that \<^verbatim>\<open>backup.py\<close> calls, on
  strings. The separator is \<^verbatim>\<open>/\<close>.
\<close>

definition sep :: char where
  "sep = CHR ''/''"

text \<open>\<^verbatim>\<open>basename(p)\<close>: what follows the last separator of \<^verbatim>\<open>p\<close>.\<close>

definition basename :: "string \<Rightarrow> string" where
  "basename p = rev (takeWhile (\<lambda>c. c \<noteq> sep) (rev p))"

text \<open>
  \<^verbatim>\<open>dirname(p)\<close>: the part up to the last separator, with trailing separators
  stripped unless it consists of separators only.
\<close>

definition dirname :: "string \<Rightarrow> string" where
  "dirname p =
     (let head = rev (dropWhile (\<lambda>c. c \<noteq> sep) (rev p))
      in if head \<noteq> [] \<and> \<not> list_all (\<lambda>c. c = sep) head
         then rev (dropWhile (\<lambda>c. c = sep) (rev head))
         else head)"

text \<open>\<^verbatim>\<open>join(a, b)\<close> for two arguments.\<close>

definition path_join :: "string \<Rightarrow> string \<Rightarrow> string" where
  "path_join a b =
     (if b \<noteq> [] \<and> hd b = sep then b
      else if a = [] \<or> last a = sep then a @ b
      else a @ [sep] @ b)"

section \<open>Timestamps and the backup name\<close>

text \<open>
  The fields of a \<^verbatim>\<open>datetime\<close> that the format string reads. The clock is an input
  of the model: \<^verbatim>\<open>datetime.now()\<close> is whatever the environment says.
\<close>

record datetime =
  year :: nat
  month :: nat
  day :: nat
  hour :: nat
  minute :: nat
  second :: nat

definition valid_datetime :: "datetime \<Rightarrow> bool" where
  "valid_datetime d \<longleftrightarrow>
     1000 \<le> year d \<and> year d \<le> 9999 \<and> 1 \<le> month d \<and> month d \<le> 12 \<and>
     1 \<le> day d \<and> day d \<le> 31 \<and> hour d \<le> 23 \<and> minute d \<le> 59 \<and> second d \<le> 59"

definition digit :: "nat \<Rightarrow> char" where
  "digit n = char_of (48 + n mod 10)"

definition is_digit :: "char \<Rightarrow> bool" where
  "is_digit c \<longleftrightarrow> 48 \<le> (of_char c :: nat) \<and> (of_char c :: nat) \<le> 57"

text \<open>\<^verbatim>\<open>%m %d %H %M %S\<close>: two digits, zero padded.\<close>

definition pad2 :: "nat \<Rightarrow> string" where
  "pad2 n = [digit (n div 10), digit n]"

text \<open>\<^verbatim>\<open>%Y\<close>: the year in decimal, as the C library prints it (no padding).\<close>

fun decimal :: "nat \<Rightarrow> string" where
  "decimal n = (if n < 10 then [digit n] else decimal (n div 10) @ [digit n])"

declare decimal.simps [simp del]

text \<open>\<^verbatim>\<open>strftime("%Y-%m-%d_%H-%M-%S")\<close>\<close>

definition strftime :: "datetime \<Rightarrow> string" where
  "strftime d =
     decimal (year d) @ ''-'' @ pad2 (month d) @ ''-'' @ pad2 (day d) @ ''_'' @
     pad2 (hour d) @ ''-'' @ pad2 (minute d) @ ''-'' @ pad2 (second d)"

text \<open>
  \<^verbatim>\<open>_generate_backup_folder_name\<close>; the second argument is the reading of the clock.
\<close>

definition version :: string where
  "version = ''v1.0.0''"

definition generate_backup_folder_name :: "string \<Rightarrow> datetime \<Rightarrow> string" where
  "generate_backup_folder_name base_name now =
     base_name @ ''_'' @ strftime now @ ''_'' @ version"

text \<open>Lines 120 to 125 of \<^verbatim>\<open>perform_backup\<close>: the destination path.\<close>

definition full_destination_path :: "string \<Rightarrow> string \<Rightarrow> bool \<Rightarrow> datetime \<Rightarrow> string" where
  "full_destination_path source_folder base_destination_folder compress now =
     (let base_name = basename source_folder;
          backup_name_with_version = generate_backup_folder_name base_name now;
          p = path_join base_destination_folder backup_name_with_version
      in if compress then p @ ''.zip'' else p)"

section \<open>The file system\<close>

text \<open>
  A file system is a tree of directories and regular files (no symbolic links, no
  permissions, no special files). A directory lists its entries in some order, as
  \<^verbatim>\<open>os.scandir\<close> returns them. The data of a file is either uninterpreted bytes or
  a zip container, kept as the list of its members (name and data): the bytes of the
  container format are not modelled.
\<close>

datatype fdata = Raw string | Zip "(string \<times> fdata) list"

datatype node = File fdata | Dir "(string \<times> node) list"

text \<open>The exception classes that matter to the handlers of \<^verbatim>\<open>perform_backup\<close>.\<close>

datatype exn =
    PermissionError | ShutilError | BadZipFile
  | FileNotFoundError | FileExistsError | NotADirectoryError | IsADirectoryError
  | OSError | ValueError | RecursionError | MemoryError
  | KeyboardInterrupt | SystemExit

text \<open>Whether the class derives from \<^verbatim>\<open>Exception\<close> (and not only from \<^verbatim>\<open>BaseException\<close>).\<close>

definition is_Exception :: "exn \<Rightarrow> bool" where
  "is_Exception e \<longleftrightarrow> e \<noteq> KeyboardInterrupt \<and> e \<noteq> SystemExit"

subsection \<open>Resolving a path string\<close>

fun splitc :: "string \<Rightarrow> string \<Rightarrow> string list" where
  "splitc cur [] = [cur]"
| "splitc cur (c # cs) = (if c = sep then cur # splitc [] cs else splitc (cur @ [c]) cs)"

text \<open>
  The components of a path: empty components and \<^verbatim>\<open>.\<close> are dropped. A component
  \<^verbatim>\<open>..\<close> is not interpreted: no directory of the model has an entry of that name.
\<close>

definition components :: "string \<Rightarrow> string list" where
  "components p = filter (\<lambda>s. s \<noteq> [] \<and> s \<noteq> ''.'') (splitc [] p)"

definition is_abs :: "string \<Rightarrow> bool" where
  "is_abs p \<longleftrightarrow> p \<noteq> [] \<and> hd p = sep"

definition resolve :: "string list \<Rightarrow> string \<Rightarrow> string list" where
  "resolve wd p = (if is_abs p then components p else wd @ components p)"

text \<open>
  The system calls refuse the empty path (\<^verbatim>\<open>ENOENT\<close>) and Python refuses a path with
  an embedded null character (\<^verbatim>\<open>ValueError\<close>).
\<close>

definition has_nul :: "string \<Rightarrow> bool" where
  "has_nul p \<longleftrightarrow> char_of (0::nat) \<in> set p"

subsection \<open>Trees\<close>

fun lookup :: "node \<Rightarrow> string list \<Rightarrow> node option" where
  "lookup n [] = Some n"
| "lookup (File d) (c # cs) = None"
| "lookup (Dir es) (c # cs) = (case map_of es c of None \<Rightarrow> None | Some n \<Rightarrow> lookup n cs)"

text \<open>
  \<open>store n p new\<close> puts \<open>new\<close> at path \<open>p\<close>, creating the missing directories on the
  way; below a regular file nothing is stored.
\<close>

fun store :: "node \<Rightarrow> string list \<Rightarrow> node \<Rightarrow> node" where
  "store n [] new = new"
| "store (File d) (c # cs) new = File d"
| "store (Dir es) (c # cs) new =
     Dir (AList.update c
            (store (case map_of es c of None \<Rightarrow> Dir [] | Some n \<Rightarrow> n) cs new) es)"

text \<open>\<open>unlink n p\<close> removes the entry at path \<open>p\<close> with everything below it.\<close>

fun unlink :: "node \<Rightarrow> string list \<Rightarrow> node" where
  "unlink n [] = n"
| "unlink (File d) (c # cs) = File d"
| "unlink (Dir es) [c] = Dir (AList.delete c es)"
| "unlink (Dir es) (c # cs) =
     (case map_of es c of
        None \<Rightarrow> Dir es
      | Some n \<Rightarrow> Dir (AList.update c (unlink n cs) es))"

text \<open>Whether a proper prefix of the path is a regular file.\<close>

fun blocked :: "node \<Rightarrow> string list \<Rightarrow> bool" where
  "blocked n [] = False"
| "blocked (File d) (c # cs) = True"
| "blocked (Dir es) (c # cs) = (case map_of es c of None \<Rightarrow> False | Some n \<Rightarrow> blocked n cs)"


text \<open>The regular files below a node, with their paths relative to it.\<close>

fun tree_files :: "node \<Rightarrow> (string list \<times> fdata) list" where
  "tree_files (File d) = [([], d)]"
| "tree_files (Dir es) =
     concat (map (\<lambda>e. map (\<lambda>(p, d). (fst e # p, d)) (tree_files (snd e))) es)"

text \<open>
  \<^verbatim>\<open>os.walk(top)\<close>, top down: one triple (directory, names of its subdirectories,
  names of its files) for the directory itself, then the triples of each subdirectory.
  The directory is given by its path relative to \<^verbatim>\<open>top\<close>. On something that is not a
  directory the walk yields nothing (the error of \<^verbatim>\<open>scandir\<close> is swallowed).
\<close>

fun is_dir_node :: "node \<Rightarrow> bool" where
  "is_dir_node (Dir es) = True"
| "is_dir_node (File d) = False"

definition dirnames :: "(string \<times> node) list \<Rightarrow> string list" where
  "dirnames es = map fst (filter (\<lambda>e. is_dir_node (snd e)) es)"

definition filenames :: "(string \<times> node) list \<Rightarrow> string list" where
  "filenames es = map fst (filter (\<lambda>e. \<not> is_dir_node (snd e)) es)"

fun walk :: "string list \<Rightarrow> node \<Rightarrow> (string list \<times> string list \<times> string list) list" where
  "walk rel (File d) = []"
| "walk rel (Dir es) =
     (rel, dirnames es, filenames es) # concat (map (\<lambda>e. walk (rel @ [fst e]) (snd e)) es)"

section \<open>State, environment and log\<close>

datatype level = INFO | WARNING | ERROR

datatype status = SUCCESS | FAILED

text \<open>The four texts that \<^verbatim>\<open>error_message\<close> can take, by handler.\<close>

datatype error_message =
    PermissionDenied string string
  | ShutilCopyError exn
  | ZipFileError exn
  | Unexpected exn

text \<open>
  A log line is kept as the fields its format string prints, not as the printed text.
\<close>

datatype message =
    SourceMissing string
  | SourceNotDirectory string
  | Starting string string bool
  | DestinationCreated string
  | ZipDirCreated string
  | FolderDeleted string
  | ZipDeleted string
  | ZipSuccessful string string
  | CopySuccessful string string
  | FilesBackedUp nat
  | Failure error_message
  | Completed string status "datetime \<times> datetime" nat "error_message option"

record state =
  root :: node
  cwd :: "string list"
  log :: "(level \<times> message) list"

text \<open>
  The file-system calls that can raise, as far as the environment decides it: the
  environment may make any of them fail with any exception. A call that fails so has no
  effect. The members of the archive are written one by one, so each has its own entry.
\<close>

datatype fs_op =
    OpRmtree | OpRemove | OpMakedirs | OpCopytree | OpZipOpen | OpZipWrite "string list"

record env =
  fault :: "fs_op \<Rightarrow> exn option"
  now_name :: datetime
  start_time :: datetime
  end_time :: datetime

type_synonym 'a result = "(exn \<times> state) + ('a \<times> state)"

definition say :: "level \<Rightarrow> message \<Rightarrow> state \<Rightarrow> state" where
  "say lv m st = st\<lparr>log := log st @ [(lv, m)]\<rparr>"

subsection \<open>The calls into the standard library\<close>

definition node_at :: "state \<Rightarrow> string \<Rightarrow> node option" where
  "node_at st p =
     (if p = [] \<or> has_nul p then None else lookup (root st) (resolve (cwd st) p))"

text \<open>\<^verbatim>\<open>os.path.exists\<close>, \<^verbatim>\<open>isdir\<close>, \<^verbatim>\<open>isfile\<close>: they never raise on a string.\<close>

definition path_exists :: "state \<Rightarrow> string \<Rightarrow> bool" where
  "path_exists st p \<longleftrightarrow> node_at st p \<noteq> None"

definition isdir :: "state \<Rightarrow> string \<Rightarrow> bool" where
  "isdir st p \<longleftrightarrow> (case node_at st p of Some (Dir es) \<Rightarrow> True | _ \<Rightarrow> False)"

definition isfile :: "state \<Rightarrow> string \<Rightarrow> bool" where
  "isfile st p \<longleftrightarrow> (case node_at st p of Some (File d) \<Rightarrow> True | _ \<Rightarrow> False)"

text \<open>What a call raises before it looks at the tree.\<close>

definition refused :: "env \<Rightarrow> fs_op \<Rightarrow> string \<Rightarrow> exn option" where
  "refused ev opn p =
     (case fault ev opn of
        Some e \<Rightarrow> Some e
      | None \<Rightarrow> if has_nul p then Some ValueError
                else if p = [] then Some FileNotFoundError else None)"

text \<open>\<^verbatim>\<open>shutil.rmtree(p)\<close>. The root directory cannot be removed.\<close>

definition rmtree :: "env \<Rightarrow> state \<Rightarrow> string \<Rightarrow> unit result" where
  "rmtree ev st p =
     (case refused ev OpRmtree p of
        Some e \<Rightarrow> Inl (e, st)
      | None \<Rightarrow>
          (let cs = resolve (cwd st) p in
           case lookup (root st) cs of
             None \<Rightarrow> Inl (FileNotFoundError, st)
           | Some (File d) \<Rightarrow> Inl (NotADirectoryError, st)
           | Some (Dir es) \<Rightarrow>
               if cs = [] then Inl (OSError, st)
               else Inr ((), st\<lparr>root := unlink (root st) cs\<rparr>)))"

text \<open>\<^verbatim>\<open>os.remove(p)\<close>. The root is a directory, whatever the tree says.\<close>

definition remove_file :: "env \<Rightarrow> state \<Rightarrow> string \<Rightarrow> unit result" where
  "remove_file ev st p =
     (case refused ev OpRemove p of
        Some e \<Rightarrow> Inl (e, st)
      | None \<Rightarrow>
          (let cs = resolve (cwd st) p in
           case lookup (root st) cs of
             None \<Rightarrow> Inl (FileNotFoundError, st)
           | Some (Dir es) \<Rightarrow> Inl (IsADirectoryError, st)
           | Some (File d) \<Rightarrow>
               if cs = [] then Inl (IsADirectoryError, st)
               else Inr ((), st\<lparr>root := unlink (root st) cs\<rparr>)))"

text \<open>\<^verbatim>\<open>os.makedirs(p)\<close>, with \<^verbatim>\<open>exist_ok=False\<close>.\<close>

definition makedirs :: "env \<Rightarrow> state \<Rightarrow> string \<Rightarrow> unit result" where
  "makedirs ev st p =
     (case refused ev OpMakedirs p of
        Some e \<Rightarrow> Inl (e, st)
      | None \<Rightarrow>
          (let cs = resolve (cwd st) p in
           if lookup (root st) cs \<noteq> None then Inl (FileExistsError, st)
           else if blocked (root st) cs then Inl (NotADirectoryError, st)
           else Inr ((), st\<lparr>root := store (root st) cs (Dir [])\<rparr>)))"

text \<open>
  The loop of \<^verbatim>\<open>shutil.copytree(..., dirs_exist_ok=True)\<close> over the entries of the
  source directory, writing into the entries of the destination directory: a regular file
  is copied over what is there, a directory is merged into the directory of that name.
  An entry that cannot be copied (a file onto a directory, a directory onto a file) is
  noted and the loop goes on; the flag says whether some entry failed.
\<close>

fun copy_entries ::
  "(string \<times> node) list \<Rightarrow> (string \<times> node) list \<Rightarrow> bool \<times> (string \<times> node) list" where
  "copy_entries [] ds = (False, ds)"
| "copy_entries ((n, File x) # es) ds =
     (case map_of ds n of
        Some (Dir old) \<Rightarrow> (True, snd (copy_entries es ds))
      | _ \<Rightarrow> copy_entries es (AList.update n (File x) ds))"
| "copy_entries ((n, Dir sub) # es) ds =
     (case map_of ds n of
        Some (File old) \<Rightarrow> (True, snd (copy_entries es ds))
      | other \<Rightarrow>
          (let r1 = copy_entries sub (case other of Some (Dir old) \<Rightarrow> old | _ \<Rightarrow> []);
               r2 = copy_entries es (AList.update n (Dir (snd r1)) ds)
           in (fst r1 \<or> fst r2, snd r2)))"

text \<open>
  \<^verbatim>\<open>shutil.copytree(src, dst, dirs_exist_ok=True)\<close>. The source is listed first, then the
  destination directory is made, then the entries are copied and the failures of the
  entries are raised together as one \<^verbatim>\<open>shutil.Error\<close>. Copying a tree onto itself
  fails at each regular file (same file). Copying a tree into itself descends into the
  copy until the path is too long; the tree this leaves behind is not modelled. The
  contents of the source are those at the start of the call.
\<close>

definition copytree :: "env \<Rightarrow> state \<Rightarrow> string \<Rightarrow> string \<Rightarrow> unit result" where
  "copytree ev st src dst =
     (case refused ev OpCopytree src of
        Some e \<Rightarrow> Inl (e, st)
      | None \<Rightarrow>
          (let s = resolve (cwd st) src; d = resolve (cwd st) dst in
           case lookup (root st) s of
             None \<Rightarrow> Inl (FileNotFoundError, st)
           | Some (File x) \<Rightarrow> Inl (NotADirectoryError, st)
           | Some (Dir es) \<Rightarrow>
               if has_nul dst then Inl (ValueError, st)
               else if dst = [] then Inl (FileNotFoundError, st)
               else if blocked (root st) d then Inl (NotADirectoryError, st)
               else (case lookup (root st) d of
                       Some (File x) \<Rightarrow> Inl (FileExistsError, st)
                     | other \<Rightarrow>
                         if s = d then
                           (if tree_files (Dir es) = [] then Inr ((), st)
                            else Inl (ShutilError, st))
                         else if strict_prefix s d then Inl (ShutilError, st)
                         else
                           (let r = copy_entries es
                                      (case other of Some (Dir old) \<Rightarrow> old | _ \<Rightarrow> []);
                                st' = st\<lparr>root := store (root st) d (Dir (snd r))\<rparr>
                            in if fst r then Inl (ShutilError, st') else Inr ((), st')))))"

text \<open>
  \<^verbatim>\<open>zipfile.ZipFile(out, 'w', ZIP_DEFLATED)\<close>: the file is created, or truncated, as an
  archive without members. Its directory must exist.
\<close>

definition zip_open :: "env \<Rightarrow> state \<Rightarrow> string \<Rightarrow> unit result" where
  "zip_open ev st out =
     (case refused ev OpZipOpen out of
        Some e \<Rightarrow> Inl (e, st)
      | None \<Rightarrow>
          (let z = resolve (cwd st) out in
           case lookup (root st) z of
             Some (Dir es) \<Rightarrow> Inl (IsADirectoryError, st)
           | _ \<Rightarrow>
               if z = [] then Inl (IsADirectoryError, st)
               else (case lookup (root st) (butlast z) of
                       None \<Rightarrow> Inl (FileNotFoundError, st)
                     | Some (File x) \<Rightarrow> Inl (NotADirectoryError, st)
                     | Some (Dir es) \<Rightarrow>
                         Inr ((), st\<lparr>root := store (root st) z (File (Zip []))\<rparr>))))"

text \<open>
  \<^verbatim>\<open>os.path.relpath(os.path.join(root, file), source_path)\<close> for a file that the walk
  of \<^verbatim>\<open>source_path\<close> found: its components relative to the source, joined by the
  separator.
\<close>

fun arcname :: "string list \<Rightarrow> string" where
  "arcname [] = []"
| "arcname [c] = c"
| "arcname (c # cs) = c @ [sep] @ arcname cs"

text \<open>
  \<^verbatim>\<open>zipf.write(file_path, arcname)\<close>: the file is read as it is at that moment and
  becomes the last member of the archive.
\<close>

definition zip_write ::
  "env \<Rightarrow> state \<Rightarrow> string list \<Rightarrow> string list \<Rightarrow> string list \<Rightarrow> unit result" where
  "zip_write ev st s z rel =
     (case fault ev (OpZipWrite rel) of
        Some e \<Rightarrow> Inl (e, st)
      | None \<Rightarrow>
          (case lookup (root st) (s @ rel) of
             None \<Rightarrow> Inl (FileNotFoundError, st)
           | Some (Dir es) \<Rightarrow> Inl (IsADirectoryError, st)
           | Some (File d) \<Rightarrow>
               (case lookup (root st) z of
                  Some (File (Zip ms)) \<Rightarrow>
                    Inr ((), st\<lparr>root := store (root st) z (File (Zip (ms @ [(arcname rel, d)])))\<rparr>)
                | _ \<Rightarrow> Inl (OSError, st))))"

text \<open>The two nested loops of \<^verbatim>\<open>_zip_folder_contents\<close>, over the files of the walk.\<close>

fun zip_loop ::
  "env \<Rightarrow> state \<Rightarrow> string list \<Rightarrow> string list \<Rightarrow> string list list \<Rightarrow> unit result" where
  "zip_loop ev st s z [] = Inr ((), st)"
| "zip_loop ev st s z (rel # rest) =
     (case zip_write ev st s z rel of
        Inl x \<Rightarrow> Inl x
      | Inr (u, st') \<Rightarrow> zip_loop ev st' s z rest)"

definition walked_files ::
  "(string list \<times> string list \<times> string list) list \<Rightarrow> string list list" where
  "walked_files ts = concat (map (\<lambda>(rel, ds, fs). map (\<lambda>f. rel @ [f]) fs) ts)"

text \<open>
  \<^verbatim>\<open>os.walk(p)\<close> on a path string; a null character is not an \<^verbatim>\<open>OSError\<close>, so the
  walk does not swallow it.
\<close>

definition os_walk ::
  "state \<Rightarrow> string \<Rightarrow> exn + (string list \<times> string list \<times> string list) list" where
  "os_walk st p =
     (if has_nul p then Inl ValueError
      else Inr (case node_at st p of None \<Rightarrow> [] | Some n \<Rightarrow> walk [] n))"

section \<open>\<^verbatim>\<open>BackupManager\<close>\<close>

text \<open>\<^verbatim>\<open>_count_files_in_folder\<close>: the loop adds the number of files of each triple.\<close>

definition count_files_in_folder :: "state \<Rightarrow> string \<Rightarrow> exn + nat" where
  "count_files_in_folder st folder_path =
     (case os_walk st folder_path of
        Inl e \<Rightarrow> Inl e
      | Inr ts \<Rightarrow> Inr (foldl (\<lambda>count (r, ds, fs). count + length fs) 0 ts))"

text \<open>
  \<^verbatim>\<open>_copy_folder_contents\<close>. Its handler raises again what it caught, so an exception
  leaves the function as it came.
\<close>

definition copy_folder_contents :: "env \<Rightarrow> state \<Rightarrow> string \<Rightarrow> string \<Rightarrow> bool result" where
  "copy_folder_contents ev st source_path destination_path =
     (case (if \<not> path_exists st destination_path then
              (case makedirs ev st destination_path of
                 Inl x \<Rightarrow> Inl x
               | Inr (u, st1) \<Rightarrow> Inr ((), say INFO (DestinationCreated destination_path) st1))
            else Inr ((), st)) of
        Inl x \<Rightarrow> Inl x
      | Inr (u, st1) \<Rightarrow>
          (case copytree ev st1 source_path destination_path of
             Inl x \<Rightarrow> Inl x
           | Inr (u, st2) \<Rightarrow> Inr (True, st2)))"

text \<open>
  \<^verbatim>\<open>_zip_folder_contents\<close>. The archive is closed when the \<^verbatim>\<open>with\<close> block is left,
  also by an exception: the members written so far stay in it.
\<close>

definition zip_folder_contents :: "env \<Rightarrow> state \<Rightarrow> string \<Rightarrow> string \<Rightarrow> bool result" where
  "zip_folder_contents ev st source_path output_zip_path =
     (let output_dir = dirname output_zip_path in
      case (if output_dir \<noteq> [] \<and> \<not> path_exists st output_dir then
              (case makedirs ev st output_dir of
                 Inl x \<Rightarrow> Inl x
               | Inr (u, st1) \<Rightarrow> Inr ((), say INFO (ZipDirCreated output_dir) st1))
            else Inr ((), st)) of
        Inl x \<Rightarrow> Inl x
      | Inr (u, st1) \<Rightarrow>
          (case zip_open ev st1 output_zip_path of
             Inl x \<Rightarrow> Inl x
           | Inr (u, st2) \<Rightarrow>
               (case os_walk st2 source_path of
                  Inl e \<Rightarrow> Inl (e, st2)
                | Inr ts \<Rightarrow>
                    (case zip_loop ev st2 (resolve (cwd st2) source_path)
                            (resolve (cwd st2) output_zip_path) (walked_files ts) of
                       Inl x \<Rightarrow> Inl x
                     | Inr (u, st3) \<Rightarrow> Inr (True, st3)))))"

subsection \<open>\<^verbatim>\<open>perform_backup\<close>\<close>

text \<open>Lines 136 to 142: an artifact at the destination path is removed.\<close>

definition cleanup :: "env \<Rightarrow> state \<Rightarrow> string \<Rightarrow> unit result" where
  "cleanup ev st full_destination =
     (if path_exists st full_destination then
        (if isdir st full_destination then
           (case rmtree ev st full_destination of
              Inl x \<Rightarrow> Inl x
            | Inr (u, st1) \<Rightarrow> Inr ((), say WARNING (FolderDeleted full_destination) st1))
         else if isfile st full_destination then
           (case remove_file ev st full_destination of
              Inl x \<Rightarrow> Inl x
            | Inr (u, st1) \<Rightarrow> Inr ((), say WARNING (ZipDeleted full_destination) st1))
         else Inr ((), st))
      else Inr ((), st))"

text \<open>Lines 145 to 152: the copy or the compression, with its log line.\<close>

definition write_backup :: "env \<Rightarrow> state \<Rightarrow> string \<Rightarrow> string \<Rightarrow> bool \<Rightarrow> bool result" where
  "write_backup ev st source_folder full_destination compress =
     (if compress then
        (case zip_folder_contents ev st source_folder full_destination of
           Inl x \<Rightarrow> Inl x
         | Inr (success, st1) \<Rightarrow>
             Inr (success,
                  if success then say INFO (ZipSuccessful source_folder full_destination) st1
                  else st1))
      else
        (case copy_folder_contents ev st source_folder full_destination of
           Inl x \<Rightarrow> Inl x
         | Inr (success, st1) \<Rightarrow>
             Inr (success,
                  if success then say INFO (CopySuccessful source_folder full_destination) st1
                  else st1)))"

text \<open>
  The body of the \<^verbatim>\<open>try\<close> statement (lines 135 to 156). It ends either normally, with
  the values of \<^verbatim>\<open>success\<close> and \<^verbatim>\<open>files_count\<close>, or by an exception, with the values the
  two variables have at that moment.
\<close>

definition try_body ::
  "env \<Rightarrow> state \<Rightarrow> string \<Rightarrow> string \<Rightarrow> bool \<Rightarrow> (exn \<times> bool \<times> nat \<times> state) + (bool \<times> nat \<times> state)" where
  "try_body ev st source_folder full_destination compress =
     (case cleanup ev st full_destination of
        Inl (e, st1) \<Rightarrow> Inl (e, False, 0, st1)
      | Inr (u, st1) \<Rightarrow>
          (case write_backup ev st1 source_folder full_destination compress of
             Inl (e, st2) \<Rightarrow> Inl (e, False, 0, st2)
           | Inr (success, st2) \<Rightarrow>
               if success then
                 (case count_files_in_folder st2 source_folder of
                    Inl e \<Rightarrow> Inl (e, success, 0, st2)
                  | Inr files_count \<Rightarrow>
                      Inr (success, files_count, say INFO (FilesBackedUp files_count) st2))
               else Inr (success, 0, st2)))"

text \<open>
  The \<^verbatim>\<open>except\<close> clauses, in their order; \<open>None\<close> when no clause matches the
  exception, which then stays in flight.
\<close>

definition handler :: "exn \<Rightarrow> string \<Rightarrow> string \<Rightarrow> error_message option" where
  "handler e source_folder full_destination =
     (if e = PermissionError then Some (PermissionDenied source_folder full_destination)
      else if e = ShutilError then Some (ShutilCopyError e)
      else if e = BadZipFile then Some (ZipFileError e)
      else if is_Exception e then Some (Unexpected e)
      else None)"

text \<open>
  The \<^verbatim>\<open>finally\<close> clause (lines 171 to 183). It ends with \<^verbatim>\<open>return success\<close>, and a
  \<^verbatim>\<open>return\<close> in a \<^verbatim>\<open>finally\<close> clause discards the exception in flight, if there is one.
\<close>

definition finally_clause ::
  "env \<Rightarrow> exn option \<Rightarrow> string \<Rightarrow> bool \<Rightarrow> nat \<Rightarrow> error_message option \<Rightarrow> state \<Rightarrow> bool result" where
  "finally_clause ev in_flight source_folder success files_count err st =
     (let duration = (start_time ev, end_time ev);
          status = (if success then SUCCESS else FAILED)
      in Inr (success, say INFO (Completed source_folder status duration files_count err) st))"

definition perform_backup :: "env \<Rightarrow> state \<Rightarrow> string \<Rightarrow> string \<Rightarrow> bool \<Rightarrow> bool result" where
  "perform_backup ev st source_folder base_destination_folder compress =
     (if \<not> path_exists st source_folder then
        Inr (False, say ERROR (SourceMissing source_folder) st)
      else if \<not> isdir st source_folder then
        Inr (False, say ERROR (SourceNotDirectory source_folder) st)
      else
        (let full_destination =
               full_destination_path source_folder base_destination_folder compress (now_name ev);
             st0 = say INFO (Starting source_folder full_destination compress) st
         in case try_body ev st0 source_folder full_destination compress of
              Inr (success, files_count, st1) \<Rightarrow>
                finally_clause ev None source_folder success files_count None st1
            | Inl (e, success, files_count, st1) \<Rightarrow>
                (case handler e source_folder full_destination of
                   Some err \<Rightarrow>
                     finally_clause ev None source_folder success files_count (Some err)
                       (say ERROR (Failure err) st1)
                 | None \<Rightarrow>
                     finally_clause ev (Some e) source_folder success files_count None st1)))"

section \<open>Auxiliary notions for the statements\<close>


definition sample_time :: datetime where
  "sample_time = \<lparr>year = 2026, month = 11, day = 4, hour = 7, minute = 21, second = 0\<rparr>"

definition sample_env :: env where
  "sample_env = \<lparr>fault = (\<lambda>opn. None), now_name = sample_time,
                  start_time = sample_time, end_time = sample_time\<rparr>"

definition denied_env :: env where
  "denied_env = \<lparr>fault = (\<lambda>opn. if opn = OpCopytree then Some PermissionError else None),
                  now_name = sample_time, start_time = sample_time, end_time = sample_time\<rparr>"

definition sample_root :: node where
  "sample_root =
     Dir [(''data'', Dir [(''a.txt'', File (Raw ''hi'')),
                          (''sub'', Dir [(''b'', File (Raw ''x'')), (''empty'', Dir [])])]),
          (''bk'', Dir [])]"

definition sample_state :: state where
  "sample_state = \<lparr>root = sample_root, cwd = [], log = []\<rparr>"

definition dest_of :: "env \<Rightarrow> string \<Rightarrow> string \<Rightarrow> bool \<Rightarrow> string" where
  "dest_of ev source_folder base_destination_folder compress =
     full_destination_path source_folder base_destination_folder compress (now_name ev)"

definition completed :: "env \<Rightarrow> string \<Rightarrow> bool \<Rightarrow> nat \<Rightarrow> error_message option \<Rightarrow> level \<times> message" where
  "completed ev source_folder success files_count err =
     (INFO, Completed source_folder (if success then SUCCESS else FAILED)
              (start_time ev, end_time ev) files_count err)"




definition sample_source :: node where
  "sample_source =
     Dir [(''a.txt'', File (Raw ''hi'')),
          (''sub'', Dir [(''b'', File (Raw ''x'')), (''empty'', Dir [])])]"


text \<open>
  The sample state after an earlier backup: the destination path of the sample call holds
  a directory with one file.
\<close>

definition old_state :: state where
  "old_state =
     \<lparr>root = Dir [(''data'', sample_source),
                  (''bk'', Dir [(''data_2026-11-04_07-21-00_v1.0.0'',
                                 Dir [(''old.txt'', File (Raw ''old''))])])],
      cwd = [], log = []\<rparr>"

text \<open>What a call returned, and the node at a path in the state it left.\<close>

definition returned :: "bool result \<Rightarrow> bool option" where
  "returned r = (case r of Inl x \<Rightarrow> None | Inr (b, st) \<Rightarrow> Some b)"

definition node_after :: "bool result \<Rightarrow> string \<Rightarrow> node option" where
  "node_after r p = (case r of Inl x \<Rightarrow> None | Inr (b, st) \<Rightarrow> node_at st p)"

section \<open>Properties\<close>

lemma say_simps [simp]:
  "root (say lv m st) = root st" "cwd (say lv m st) = cwd st"
  "log (say lv m st) = log st @ [(lv, m)]"
  by (simp_all add: say_def)

lemma node_at_say [simp]: "node_at (say lv m st) p = node_at st p"
  by (simp add: node_at_def)














lemma copy_folder_contents_True: "copy_folder_contents ev st p q = Inr (b, st') \<Longrightarrow> b"
  by (auto simp: copy_folder_contents_def split: if_splits sum.splits)

lemma zip_folder_contents_True: "zip_folder_contents ev st p q = Inr (b, st') \<Longrightarrow> b"
  by (auto simp: zip_folder_contents_def Let_def split: if_splits sum.splits)

lemma write_backup_True: "write_backup ev st p q c = Inr (b, st') \<Longrightarrow> b"
  by (auto simp: write_backup_def split: if_splits sum.splits
      dest: copy_folder_contents_True zip_folder_contents_True)





lemma path_exists_no_nul: "path_exists st p \<Longrightarrow> \<not> has_nul p"
  by (auto simp: path_exists_def node_at_def split: if_splits)

lemma isdir_exists: "isdir st p \<Longrightarrow> path_exists st p"
  by (auto simp: isdir_def path_exists_def split: option.splits)

lemma try_body_raise_flag:
  "try_body ev st p q c = Inl (e, b, n, st') \<Longrightarrow> \<not> has_nul p \<Longrightarrow> \<not> b \<and> n = 0"
  by (auto simp: try_body_def count_files_in_folder_def os_walk_def
      split: if_splits sum.splits)

lemma perform_backup_normal:
  assumes "isdir st src"
    and "try_body ev (say INFO (Starting src (dest_of ev src base c) c) st) src
           (dest_of ev src base c) c = Inr (b, n, st1)"
  shows "perform_backup ev st src base c =
           Inr (b, st1\<lparr>log := log st1 @ [completed ev src b n None]\<rparr>)"
  using assms isdir_exists [OF assms(1)]
  by (simp add: perform_backup_def dest_of_def Let_def finally_clause_def completed_def say_def)

lemma perform_backup_handled:
  assumes "isdir st src"
    and "try_body ev (say INFO (Starting src (dest_of ev src base c) c) st) src
           (dest_of ev src base c) c = Inl (e, b, n, st1)"
    and "handler e src (dest_of ev src base c) = Some err"
  shows "perform_backup ev st src base c =
           Inr (b, st1\<lparr>log := log st1 @ [(ERROR, Failure err), completed ev src b n (Some err)]\<rparr>)"
  using assms isdir_exists [OF assms(1)]
  by (simp add: perform_backup_def dest_of_def Let_def finally_clause_def completed_def say_def)

lemma perform_backup_unhandled:
  assumes "isdir st src"
    and "try_body ev (say INFO (Starting src (dest_of ev src base c) c) st) src
           (dest_of ev src base c) c = Inl (e, b, n, st1)"
    and "handler e src (dest_of ev src base c) = None"
  shows "perform_backup ev st src base c =
           Inr (b, st1\<lparr>log := log st1 @ [completed ev src b n None]\<rparr>)"
  using assms isdir_exists [OF assms(1)]
  by (simp add: perform_backup_def dest_of_def Let_def finally_clause_def completed_def say_def)




text \<open>
  Claim C6. When the source path does not exist or is not a directory,
  \<^verbatim>\<open>perform_backup\<close> returns \<open>False\<close> and leaves the file system as it was (nothing
  is deleted, nothing is created): one error line is added to the log and that is all.
\<close>

theorem bad_source_no_effect:
  "\<not> (path_exists st source_folder \<and> isdir st source_folder) \<Longrightarrow>
   \<exists>st' m. perform_backup ev st source_folder base_destination_folder compress = Inr (False, st') \<and>
     root st' = root st \<and> cwd st' = cwd st \<and> log st' = log st @ [(ERROR, m)]"
  by (auto simp: perform_backup_def)

theorem bad_source_no_effect_witness:
  "\<not> (path_exists sample_state ''/data/a.txt'' \<and> isdir sample_state ''/data/a.txt'') \<and>
   (\<exists>st' m. perform_backup sample_env sample_state ''/data/a.txt'' ''/bk'' True = Inr (False, st') \<and>
     root st' = root sample_state \<and> cwd st' = cwd sample_state \<and>
     log st' = log sample_state @ [(ERROR, m)])"
proof -
  have h: "\<not> (path_exists sample_state ''/data/a.txt'' \<and> isdir sample_state ''/data/a.txt'')"
    by code_simp
  show ?thesis
    using h bad_source_no_effect [OF h, of sample_env "''/bk''" True] by simp
qed


lemma lookup_File: "lookup (File d) p = Some m \<Longrightarrow> p = [] \<and> m = File d"
  by (cases p) auto


lemma lookup_unlink_same: "p \<noteq> [] \<Longrightarrow> lookup (unlink n p) p = None"
  by (induction n p rule: unlink.induct)
     (auto simp: AList.update_conv' AList.delete_conv' split: option.splits)


lemma blocked_empty [simp]: "\<not> blocked (Dir []) cs"
  by (cases cs) auto






lemma cleanup_Inr:
  assumes "cleanup ev st dst = Inr (u, st1)"
  shows "cwd st1 = cwd st \<and> \<not> path_exists st1 dst \<and>
         root st1 = (if path_exists st dst then unlink (root st) (resolve (cwd st) dst) else root st)"
  using assms
  by (auto simp: cleanup_def rmtree_def remove_file_def path_exists_def isdir_def isfile_def
      node_at_def Let_def lookup_unlink_same
      split: if_splits sum.splits option.splits node.splits)





lemma try_body_Inr:
  assumes "try_body ev st src dst c = Inr (b, n, st1)"
  shows "\<exists>sta stb. cleanup ev st dst = Inr ((), sta) \<and>
           write_backup ev sta src dst c = Inr (True, stb) \<and> b \<and>
           count_files_in_folder stb src = Inr n \<and> st1 = say INFO (FilesBackedUp n) stb"
proof -
  obtain sta where a: "cleanup ev st dst = Inr ((), sta)"
    using assms by (auto simp: try_body_def split: sum.splits)
  then obtain b' stb where w: "write_backup ev sta src dst c = Inr (b', stb)"
    using assms by (auto simp: try_body_def split: sum.splits)
  have "b'" using w write_backup_True by blast
  then show ?thesis using assms a w
    by (auto simp: try_body_def split: sum.splits)
qed




































lemma perform_backup_cases:
  assumes "isdir st src" and "perform_backup ev st src base c = Inr (b, st')"
  shows "(\<exists>n st1. try_body ev (say INFO (Starting src (dest_of ev src base c) c) st) src
                     (dest_of ev src base c) c = Inr (b, n, st1) \<and>
                  st' = st1\<lparr>log := log st1 @ [completed ev src b n None]\<rparr>) \<or>
         (\<exists>e st1 errs. try_body ev (say INFO (Starting src (dest_of ev src base c) c) st) src
                     (dest_of ev src base c) c = Inl (e, b, 0, st1) \<and> \<not> b \<and>
                  st' = st1\<lparr>log := log st1 @ errs @ [completed ev src b 0 (handler e src (dest_of ev src base c))]\<rparr>)"
proof -
  have nn: "\<not> has_nul src" using assms(1) path_exists_no_nul isdir_exists by blast
  let ?dst = "dest_of ev src base c"
  let ?st0 = "say INFO (Starting src ?dst c) st"
  show ?thesis
  proof (cases "try_body ev ?st0 src ?dst c")
    case (Inr r)
    obtain b' n st1 where r: "r = (b', n, st1)" by (cases r) auto
    note pn = perform_backup_normal [OF assms(1) Inr [unfolded r]]
    have "Inr (b, st') = (Inr (b', st1\<lparr>log := log st1 @ [completed ev src b' n None]\<rparr>) :: bool result)"
      using assms(2) [symmetric] pn by (rule trans)
    then have "b = b'" "st' = st1\<lparr>log := log st1 @ [completed ev src b' n None]\<rparr>"
      by blast+
    then have "try_body ev ?st0 src ?dst c = Inr (b, n, st1) \<and>
               st' = st1\<lparr>log := log st1 @ [completed ev src b n None]\<rparr>"
      using Inr r by simp
    then have "\<exists>n st1. try_body ev ?st0 src ?dst c = Inr (b, n, st1) \<and>
               st' = st1\<lparr>log := log st1 @ [completed ev src b n None]\<rparr>"
      by blast
    then show ?thesis by (rule disjI1)
  next
    case (Inl l)
    obtain e b' n st1 where l: "l = (e, b', n, st1)" by (cases l) auto
    have f: "\<not> b'" "n = 0" using Inl l nn try_body_raise_flag by blast+
    show ?thesis
    proof (cases "handler e src ?dst")
      case None
      note pu = perform_backup_unhandled [OF assms(1) Inl [unfolded l] None]
      have "Inr (b, st') = (Inr (b', st1\<lparr>log := log st1 @ [completed ev src b' n None]\<rparr>) :: bool result)"
        using assms(2) [symmetric] pu by (rule trans)
      then have "b = b'" "st' = st1\<lparr>log := log st1 @ [completed ev src b' n None]\<rparr>"
        by blast+
      then have bb: "b' = b" and
        ss: "st' = st1\<lparr>log := log st1 @ [] @ [completed ev src b 0 (handler e src ?dst)]\<rparr>"
        using f None by simp_all
      have tt: "try_body ev ?st0 src ?dst c = Inl (e, b, 0, st1)" using Inl l f bb by simp
      have "\<exists>e st1 errs. try_body ev ?st0 src ?dst c = Inl (e, b, 0, st1) \<and> \<not> b \<and>
              st' = st1\<lparr>log := log st1 @ errs @ [completed ev src b 0 (handler e src ?dst)]\<rparr>"
        using tt ss f(1) bb by (intro exI [of _ e] exI [of _ st1] exI [of _ "[]"]) simp
      then show ?thesis by (rule disjI2)
    next
      case (Some err)
      note ph = perform_backup_handled [OF assms(1) Inl [unfolded l] Some]
      have "Inr (b, st') = (Inr (b', st1\<lparr>log := log st1 @
              [(ERROR, Failure err), completed ev src b' n (Some err)]\<rparr>) :: bool result)"
        using assms(2) [symmetric] ph by (rule trans)
      then have "b = b'" "st' = st1\<lparr>log := log st1 @
              [(ERROR, Failure err), completed ev src b' n (Some err)]\<rparr>"
        by blast+
      then have bb: "b' = b" and
        ss: "st' = st1\<lparr>log := log st1 @ [(ERROR, Failure err)] @
               [completed ev src b 0 (handler e src ?dst)]\<rparr>"
        using f Some by simp_all
      have tt: "try_body ev ?st0 src ?dst c = Inl (e, b, 0, st1)" using Inl l f bb by simp
      have "\<exists>e st1 errs. try_body ev ?st0 src ?dst c = Inl (e, b, 0, st1) \<and> \<not> b \<and>
              st' = st1\<lparr>log := log st1 @ errs @ [completed ev src b 0 (handler e src ?dst)]\<rparr>"
        using tt ss f(1) bb
        by (intro exI [of _ e] exI [of _ st1] exI [of _ "[(ERROR, Failure err)]"]) simp
      then show ?thesis by (rule disjI2)
    qed
  qed
qed



lemma cleanup_Inl: "cleanup ev st dst = Inl (e, st1) \<Longrightarrow> st1 = st"
  by (auto simp: cleanup_def rmtree_def remove_file_def Let_def
      split: if_splits sum.splits option.splits node.splits)

lemma try_body_Inl:
  assumes "try_body ev st src dst c = Inl (e, b, n, st1)" and "\<not> has_nul src"
  shows "cleanup ev st dst = Inl (e, st1) \<or>
         (\<exists>sta. cleanup ev st dst = Inr ((), sta) \<and> write_backup ev sta src dst c = Inl (e, st1))"
  using assms
  by (auto simp: try_body_def count_files_in_folder_def os_walk_def split: sum.splits if_splits)

text \<open>
  Claim C5. In a call that gets past the checks of the source and finds an artifact at the
  destination path, either the removal of the artifact raises, and then the call returns
  \<open>False\<close> with the file system untouched (nothing is written), or the artifact is
  removed, the path does not exist any more, and only then the backup is written: the file
  system the call leaves is the one \<^verbatim>\<open>write_backup\<close> made, starting where the old
  artifact is gone. So the new backup replaces the old one; it is not merged into it.
\<close>

theorem old_artifact_deleted_first:
  assumes "isdir st source_folder"
    and "path_exists st (dest_of ev source_folder base_destination_folder compress)"
    and "perform_backup ev st source_folder base_destination_folder compress = Inr (b, st')"
  shows "(\<exists>e st0. cleanup ev (say INFO (Starting source_folder
                     (dest_of ev source_folder base_destination_folder compress) compress) st)
                   (dest_of ev source_folder base_destination_folder compress) = Inl (e, st0) \<and>
                 \<not> b \<and> root st' = root st) \<or>
         (\<exists>sta. cleanup ev (say INFO (Starting source_folder
                     (dest_of ev source_folder base_destination_folder compress) compress) st)
                   (dest_of ev source_folder base_destination_folder compress) = Inr ((), sta) \<and>
                root sta = unlink (root st)
                  (resolve (cwd st) (dest_of ev source_folder base_destination_folder compress)) \<and>
                \<not> path_exists sta (dest_of ev source_folder base_destination_folder compress) \<and>
                ((\<exists>e stb. write_backup ev sta source_folder
                     (dest_of ev source_folder base_destination_folder compress) compress = Inl (e, stb) \<and>
                   \<not> b \<and> root st' = root stb) \<or>
                 (\<exists>stb. write_backup ev sta source_folder
                     (dest_of ev source_folder base_destination_folder compress) compress = Inr (True, stb) \<and>
                   b \<and> root st' = root stb)))"
proof -
  let ?dst = "dest_of ev source_folder base_destination_folder compress"
  let ?st0 = "say INFO (Starting source_folder ?dst compress) st"
  have nn: "\<not> has_nul source_folder" using assms(1) path_exists_no_nul isdir_exists by blast
  have ex0: "path_exists ?st0 ?dst" using assms(2) by (simp add: path_exists_def)
  have after: "\<And>sta. cleanup ev ?st0 ?dst = Inr ((), sta) \<Longrightarrow>
      root sta = unlink (root st) (resolve (cwd st) ?dst) \<and> \<not> path_exists sta ?dst"
    using cleanup_Inr ex0 by fastforce
  from perform_backup_cases [OF assms(1,3)] show ?thesis
  proof
    assume "\<exists>n st1. try_body ev ?st0 source_folder ?dst compress = Inr (b, n, st1) \<and>
              st' = st1\<lparr>log := log st1 @ [completed ev source_folder b n None]\<rparr>"
    then obtain n st1 where
      t: "try_body ev ?st0 source_folder ?dst compress = Inr (b, n, st1)" and
      s: "st' = st1\<lparr>log := log st1 @ [completed ev source_folder b n None]\<rparr>"
      by blast
    from try_body_Inr [OF t] obtain sta stb where
      cl: "cleanup ev ?st0 ?dst = Inr ((), sta)" and
      w: "write_backup ev sta source_folder ?dst compress = Inr (True, stb)" and
      b: "b" and s1: "st1 = say INFO (FilesBackedUp n) stb"
      by blast
    have "root st' = root stb" using s s1 by simp
    then show ?thesis using cl w b after [OF cl] by blast
  next
    assume "\<exists>e st1 errs. try_body ev ?st0 source_folder ?dst compress = Inl (e, b, 0, st1) \<and> \<not> b \<and>
              st' = st1\<lparr>log := log st1 @ errs @
                [completed ev source_folder b 0 (handler e source_folder ?dst)]\<rparr>"
    then obtain e st1 errs where
      t: "try_body ev ?st0 source_folder ?dst compress = Inl (e, b, 0, st1)" and
      nb: "\<not> b" and
      s: "st' = st1\<lparr>log := log st1 @ errs @
                [completed ev source_folder b 0 (handler e source_folder ?dst)]\<rparr>"
      by blast
    have r: "root st' = root st1" using s by simp
    from try_body_Inl [OF t nn] show ?thesis
    proof
      assume c: "cleanup ev ?st0 ?dst = Inl (e, st1)"
      then have "st1 = ?st0" by (rule cleanup_Inl)
      then have "root st' = root st" using r by simp
      then show ?thesis using c nb by blast
    next
      assume "\<exists>sta. cleanup ev ?st0 ?dst = Inr ((), sta) \<and>
                write_backup ev sta source_folder ?dst compress = Inl (e, st1)"
      then obtain sta where cl: "cleanup ev ?st0 ?dst = Inr ((), sta)" and
        w: "write_backup ev sta source_folder ?dst compress = Inl (e, st1)"
        by blast
      show ?thesis using cl w nb r after [OF cl] by blast
    qed
  qed
qed

theorem old_artifact_deleted_first_witness:
  "isdir old_state ''/data'' \<and>
   path_exists old_state (dest_of sample_env ''/data'' ''/bk'' False) \<and>
   node_at old_state (dest_of sample_env ''/data'' ''/bk'' False) =
     Some (Dir [(''old.txt'', File (Raw ''old''))]) \<and>
   (\<exists>st' sta stb.
      perform_backup sample_env old_state ''/data'' ''/bk'' False = Inr (True, st') \<and>
      cleanup sample_env (say INFO (Starting ''/data''
          (dest_of sample_env ''/data'' ''/bk'' False) False) old_state)
        (dest_of sample_env ''/data'' ''/bk'' False) = Inr ((), sta) \<and>
      \<not> path_exists sta (dest_of sample_env ''/data'' ''/bk'' False) \<and>
      write_backup sample_env sta ''/data'' (dest_of sample_env ''/data'' ''/bk'' False) False =
        Inr (True, stb) \<and>
      root st' = root stb \<and>
      node_at st' (dest_of sample_env ''/data'' ''/bk'' False) = Some sample_source)"
proof -
  have d: "isdir old_state ''/data''" by code_simp
  have e: "path_exists old_state (dest_of sample_env ''/data'' ''/bk'' False)" by code_simp
  have o: "node_at old_state (dest_of sample_env ''/data'' ''/bk'' False) =
     Some (Dir [(''old.txt'', File (Raw ''old''))])" by code_simp
  have "case perform_backup sample_env old_state ''/data'' ''/bk'' False of
          Inl x \<Rightarrow> False
        | Inr (b, st') \<Rightarrow> b \<and> node_at st' (dest_of sample_env ''/data'' ''/bk'' False) =
                                 Some sample_source"
    by code_simp
  then obtain st' where
    r: "perform_backup sample_env old_state ''/data'' ''/bk'' False = Inr (True, st')" and
    n: "node_at st' (dest_of sample_env ''/data'' ''/bk'' False) = Some sample_source"
    by (auto split: sum.splits)
  from old_artifact_deleted_first [OF d e r] d e o r n show ?thesis by blast
qed

text \<open>
  Claim C10. \<^verbatim>\<open>perform_backup\<close> is not atomic. In the sample state with an old backup
  at the destination path, let the copy fail with a permission error: the call returns
  \<open>False\<close>, the old backup is gone, and the destination holds an empty directory, while
  the source still has its files.
\<close>

theorem failed_backup_loses_old_artifact:
  "returned (perform_backup denied_env old_state ''/data'' ''/bk'' False) = Some False \<and>
   node_at old_state ''/bk/data_2026-11-04_07-21-00_v1.0.0'' =
     Some (Dir [(''old.txt'', File (Raw ''old''))]) \<and>
   dest_of denied_env ''/data'' ''/bk'' False = ''/bk/data_2026-11-04_07-21-00_v1.0.0'' \<and>
   node_after (perform_backup denied_env old_state ''/data'' ''/bk'' False)
     ''/bk/data_2026-11-04_07-21-00_v1.0.0'' = Some (Dir []) \<and>
   node_after (perform_backup denied_env old_state ''/data'' ''/bk'' False) ''/data'' =
     Some sample_source \<and>
   tree_files sample_source \<noteq> []"
  by code_simp

end
